theory Spec2Isabelle
  imports Complex_Main "HOL-Library.List_Lexorder" "HOL-Library.Log_Nat" "HOL-Library.Multiset"
begin

section \<open>JavaScript values\<close>

text \<open>
  A JavaScript string is a sequence of UTF-16 code units. The sources compare strings
  with Chinese literals, strip Unicode white space and sort by code unit, so a string is
  modelled as the list of its code units; \<open>ascii\<close> writes an ASCII literal.
\<close>

type_synonym jsstring = "nat list"

definition ascii :: "string \<Rightarrow> jsstring" where
  "ascii s = map of_char s"

text \<open>The string literals of the sources that are not ASCII, by their code units:
  the question types (multiple choice U+591A U+9009, single choice U+5355 U+9009,
  true/false U+5224 U+65AD) and the
  two fixed options of a true/false question (U+5BF9 and U+9519).\<close>

definition type_multi :: jsstring where
  "type_multi = [22810, 36873]"

definition type_single :: jsstring where
  "type_single = [21333, 36873]"

definition type_judge :: jsstring where
  "type_judge = [21028, 26029]"

definition option_right :: jsstring where
  "option_right = [23545]"

definition option_wrong :: jsstring where
  "option_wrong = [38169]"

text \<open>\<open>userAnswer\<close> holds a string (single choice, true/false) or an array of
  strings (multiple choice).\<close>

datatype user_answer = Str jsstring | Arr "jsstring list"

text \<open>\<open>Array.prototype.join(sep)\<close>, \<open>String.prototype.split('')\<close> and
  \<open>String(v)\<close> (an array prints as its elements joined by commas).
  \<open>Array.prototype.sort()\<close> without a comparator orders strings by code unit,
  a proper prefix first: that is \<open>sort\<close> at the lexicographic order of lists.\<close>

fun join :: "jsstring \<Rightarrow> jsstring list \<Rightarrow> jsstring" where
  "join sep [] = []"
| "join sep [x] = x"
| "join sep (x # y # ys) = x @ sep @ join sep (y # ys)"

definition split_chars :: "jsstring \<Rightarrow> jsstring list" where
  "split_chars s = map (\<lambda>c. [c]) s"

fun String_js :: "user_answer \<Rightarrow> jsstring" where
  "String_js (Str s) = s"
| "String_js (Arr xs) = join (ascii '','') xs"

section \<open>utils.js: checkAnswer and calculateAccuracy\<close>

text \<open>\<open>checkAnswer(userAnswer, correctAnswer, questionType)\<close>, the same in both
  versions of utils.js.\<close>

definition checkAnswer :: "user_answer \<Rightarrow> jsstring \<Rightarrow> jsstring \<Rightarrow> bool" where
  "checkAnswer userAnswer correctAnswer questionType =
     (if questionType = type_multi then
        (let userAns = (case userAnswer of Arr xs \<Rightarrow> join [] (sort xs) | Str _ \<Rightarrow> []);
             correctAns = join [] (sort (split_chars correctAnswer))
         in userAns = correctAns)
      else String_js userAnswer = correctAnswer)"

subsection \<open>Numbers\<close>

text \<open>
  \<open>correct / total * 100\<close> is computed on IEEE 754 binary64 numbers. A finite double
  is modelled by its exact rational value; \<open>fl\<close> rounds a rational to the nearest
  double (53 significant bits, ties to even), so \<open>/\<close> and \<open>*\<close> are the exact
  operation followed by \<open>fl\<close>. The model is exact on the normal range
  (magnitudes from \<open>2 powi (-1022)\<close> up to \<open>2 powi 1024\<close>); the counters of a session
  are integers below \<open>2 ^ 53\<close>, which are doubles, and their quotients stay far inside
  that range.
\<close>

definition rne :: "rat \<Rightarrow> int" where
  "rne x = (let f = \<lfloor>x\<rfloor>; d = x - of_int f in
     if d < 1 / 2 then f else if 1 / 2 < d then f + 1 else if even f then f else f + 1)"

definition ilog2 :: "rat \<Rightarrow> int" where
  "ilog2 x = (case quotient_of x of (p, q) \<Rightarrow>
     let d = bitlen p - bitlen q in if 2 powi d \<le> x then d else d - 1)"

definition fl :: "rat \<Rightarrow> rat" where
  "fl x = (if x = 0 then 0 else
     let u = 2 powi (ilog2 \<bar>x\<bar> - 52) in sgn x * of_int (rne (\<bar>x\<bar> / u)) * u)"

text \<open>\<open>Number.prototype.toFixed(1)\<close>: the integer \<open>n\<close> for which \<open>n / 10\<close> is
  closest to the number (the larger one when two are equally close), printed in decimal
  with a point before its last digit.\<close>

fun decimal :: "nat \<Rightarrow> jsstring" where
  "decimal n = (if n < 10 then [48 + n] else decimal (n div 10) @ [48 + n mod 10])"

declare decimal.simps [simp del]

definition toFixed1 :: "rat \<Rightarrow> jsstring" where
  "toFixed1 x = (let n = nat \<lfloor>\<bar>x\<bar> * 10 + 1 / 2\<rfloor> in
     (if x < 0 then ascii ''-'' else []) @ decimal (n div 10) @ ascii ''.'' @ decimal (n mod 10))"

definition calculateAccuracy :: "nat \<Rightarrow> nat \<Rightarrow> jsstring" where
  "calculateAccuracy correct total' =
     (if total' = 0 then ascii ''0%''
      else toFixed1 (fl (fl (of_nat correct / of_nat total') * 100)) @ ascii ''%'')"

section \<open>The data of the application\<close>

text \<open>
  A question object. Its \<open>statistics\<close> field refers to a statistics object that
  \<open>updateQuestionStats\<close> mutates in place. The same question objects stand in
  \<open>questions\<close> and in \<open>currentExamQuestions\<close>, and \<open>handleFileSelect\<close>
  assigns the one saved object \<open>savedStats[q.id]\<close> to every imported row with that id,
  so statistics objects can be shared. The field is therefore a parameter: the parser
  produces questions that carry their own fresh object (a \<open>statistics\<close> value), the
  application state holds questions that carry a reference into a store of statistics
  objects. \<open>options\<close> is the options object, its keys in insertion order.
\<close>

record statistics =
  consecutiveCorrect :: nat
  totalAttempts :: nat
  correctAttempts :: nat

record 's question =
  id :: jsstring
  type :: jsstring
  question :: jsstring
  options :: "(jsstring \<times> jsstring) list"
  answer :: jsstring
  statistics :: 's

type_synonym ref = nat

record answer_record =
  questionId :: jsstring
  question_a :: jsstring
  userAnswer_a :: jsstring
  correctAnswer_a :: jsstring
  isCorrect :: bool

record feedback =
  questionIndex :: int
  userAnswer_f :: jsstring
  correctAnswer_f :: jsstring
  isCorrect_f :: bool

record score =
  total' :: nat
  correct :: nat
  incorrect :: nat
  accuracy :: jsstring

record exam_record =
  examId :: nat
  startTime :: jsstring
  endTime :: jsstring
  answers :: "answer_record list"
  score :: score

datatype page = home | exam | overview | report | review | colored_review

text \<open>
  The component's data (\<open>data()\<close> of app.js), with the store of statistics objects
  and the number of pending \<open>setTimeout\<close> callbacks that will call \<open>finishExam\<close>.
  The two jump-number fields of the review pages are left out: no method modelled here
  reads or writes them. \<open>saveToLocalStorage\<close> writes to the browser's storage only and
  swallows its errors, so it changes nothing of this state; \<open>alert\<close> only shows a
  notice.
\<close>

record state =
  currentPage :: page
  questions :: "ref question list"
  heap :: "ref \<Rightarrow> statistics"
  currentExamQuestions :: "ref question list"
  currentQuestionIndex :: int
  userAnswer :: user_answer
  currentExamAnswers :: "answer_record list"
  lastAnswerFeedback :: "feedback option"
  currentExamCorrect :: nat
  currentExamIncorrect :: nat
  examHistory :: "exam_record list"
  consecutiveCorrectThreshold :: nat
  pendingFinish :: nat

text \<open>What \<open>Date.now()\<close> and the two \<open>new Date().toISOString()\<close> return at a
  call of \<open>finishExam\<close>.\<close>

record clock =
  now :: nat
  iso1 :: jsstring
  iso2 :: jsstring

datatype error = TypeError

section \<open>app.js: the session engine\<close>

text \<open>\<open>xs[i]\<close>: \<open>undefined\<close> outside the array.\<close>

definition nth_js :: "'a list \<Rightarrow> int \<Rightarrow> 'a option" where
  "nth_js xs i = (if 0 \<le> i \<and> i < int (length xs) then Some (xs ! nat i) else None)"

text \<open>The computed properties. \<open>None\<close> stands for \<open>null\<close> and \<open>undefined\<close>.\<close>

definition currentQuestion :: "state \<Rightarrow> ref question option" where
  "currentQuestion s =
     (if length (currentExamQuestions s) = 0 then None
      else nth_js (currentExamQuestions s) (currentQuestionIndex s))"

definition hasAnswer :: "state \<Rightarrow> bool" where
  "hasAnswer s =
     (if map_option type (currentQuestion s) = Some type_multi
      then (case userAnswer s of Arr xs \<Rightarrow> 0 < length xs | Str _ \<Rightarrow> False)
      else userAnswer s \<noteq> Str [])"

definition availableQuestions :: "state \<Rightarrow> ref question list" where
  "availableQuestions s =
     filter (\<lambda>q. consecutiveCorrect (heap s (statistics q)) < consecutiveCorrectThreshold s)
       (questions s)"

definition currentExamScore :: "state \<Rightarrow> score" where
  "currentExamScore s =
     \<lparr>total' = length (currentExamAnswers s),
      correct = currentExamCorrect s,
      incorrect = currentExamIncorrect s,
      accuracy = calculateAccuracy (currentExamCorrect s) (length (currentExamAnswers s))\<rparr>"

definition resetAnswer :: "state \<Rightarrow> state" where
  "resetAnswer s =
     (if map_option type (currentQuestion s) = Some type_multi
      then s\<lparr>userAnswer := Arr []\<rparr>
      else s\<lparr>userAnswer := Str []\<rparr>)"

definition startExam :: "state \<Rightarrow> state" where
  "startExam s =
     (if length (availableQuestions s) = 0 then s
      else (resetAnswer (s\<lparr>currentExamQuestions := availableQuestions s,
                             currentQuestionIndex := 0,
                             currentExamAnswers := [],
                             currentExamCorrect := 0,
                             currentExamIncorrect := 0\<rparr>))
             \<lparr>lastAnswerFeedback := None, currentPage := exam\<rparr>)"

text \<open>\<open>updateQuestionStats\<close>: the body of the \<open>forEach\<close> for one answer record, on
  the store, then the loop. \<open>find\<close> returns the first question with the id.\<close>

definition applyAnswer :: "ref question list \<Rightarrow> (ref \<Rightarrow> statistics) \<Rightarrow> answer_record \<Rightarrow> ref \<Rightarrow> statistics" where
  "applyAnswer qs h a =
     (case find (\<lambda>q. id q = questionId a) qs of
        None \<Rightarrow> h
      | Some q \<Rightarrow>
          let r = statistics q;
              h1 = h(r := (h r)\<lparr>totalAttempts := totalAttempts (h r) + 1\<rparr>)
          in if isCorrect a
             then h1(r := (h1 r)\<lparr>correctAttempts := correctAttempts (h1 r) + 1,
                                   consecutiveCorrect := consecutiveCorrect (h1 r) + 1\<rparr>)
             else h1(r := (h1 r)\<lparr>consecutiveCorrect := 0\<rparr>))"

definition updateQuestionStats :: "state \<Rightarrow> state" where
  "updateQuestionStats s =
     s\<lparr>heap := foldl (applyAnswer (questions s)) (heap s) (currentExamAnswers s)\<rparr>"

text \<open>\<open>finishExam\<close>; \<open>confirm\<close> is what the confirmation dialog answers when it is
  asked.\<close>

definition finishExam :: "bool \<Rightarrow> clock \<Rightarrow> state \<Rightarrow> state" where
  "finishExam confirm clk s =
     (if length (currentExamAnswers s) = 0 then s
      else if \<not> confirm then s
      else
        let s1 = updateQuestionStats s;
            examRecord = \<lparr>examId = now clk, startTime = iso1 clk, endTime = iso2 clk,
                          answers = currentExamAnswers s1, score = currentExamScore s1\<rparr>
        in s1\<lparr>examHistory := examRecord # examHistory s1, currentPage := report\<rparr>)"

text \<open>The part of \<open>submitAnswer\<close> that records an answer (both versions have it
  word for word). \<open>this.userAnswer.sort()\<close> sorts the array in place; reading
  \<open>.type\<close> of a missing question, or calling \<open>sort\<close> on a string, throws.\<close>

definition recordAnswer :: "state \<Rightarrow> error + state" where
  "recordAnswer s =
     (case currentQuestion s of
        None \<Rightarrow> Inl TypeError
      | Some q \<Rightarrow>
          (case (if type q = type_multi
                 then (case userAnswer s of
                         Arr xs \<Rightarrow> Inr (Arr (sort xs), join [] (sort xs))
                       | Str _ \<Rightarrow> Inl TypeError)
                 else Inr (userAnswer s, String_js (userAnswer s))) of
             Inl e \<Rightarrow> Inl e
           | Inr (ua, userAns) \<Rightarrow>
               let isCorrect = checkAnswer ua (answer q) (type q) in
               Inr (s\<lparr>userAnswer := ua,
                      currentExamAnswers := currentExamAnswers s @
                        [\<lparr>questionId = id q, question_a = question q, userAnswer_a = userAns,
                          correctAnswer_a = answer q, isCorrect = isCorrect\<rparr>],
                      currentExamCorrect :=
                        (if isCorrect then currentExamCorrect s + 1 else currentExamCorrect s),
                      currentExamIncorrect :=
                        (if isCorrect then currentExamIncorrect s else currentExamIncorrect s + 1),
                      lastAnswerFeedback :=
                        Some \<lparr>questionIndex = currentQuestionIndex s + 1, userAnswer_f = userAns,
                              correctAnswer_f = answer q, isCorrect_f = isCorrect\<rparr>\<rparr>)))"

text \<open>\<open>submitAnswer\<close> of src/unnamed/part_000 (lines 175 to 228): without an answer
  the feedback is cleared and the session still moves on, finishing at once on the last
  question.\<close>

definition submitAnswer :: "bool \<Rightarrow> clock \<Rightarrow> state \<Rightarrow> error + state" where
  "submitAnswer confirm clk s =
     (case (if hasAnswer s then recordAnswer s else Inr (s\<lparr>lastAnswerFeedback := None\<rparr>)) of
        Inl e \<Rightarrow> Inl e
      | Inr s1 \<Rightarrow>
          if currentQuestionIndex s1 < int (length (currentExamQuestions s1)) - 1
          then Inr (resetAnswer (s1\<lparr>currentQuestionIndex := currentQuestionIndex s1 + 1\<rparr>))
          else if hasAnswer s1 then Inr (s1\<lparr>pendingFinish := pendingFinish s1 + 1\<rparr>)
          else Inr (finishExam confirm clk s1))"

text \<open>\<open>submitAnswer\<close> of src/js/app.js (lines 155 to 200): without an answer the
  call returns at once.\<close>

definition submitAnswer_app :: "state \<Rightarrow> error + state" where
  "submitAnswer_app s =
     (if \<not> hasAnswer s then Inr s
      else
        (case recordAnswer s of
           Inl e \<Rightarrow> Inl e
         | Inr s1 \<Rightarrow>
             if currentQuestionIndex s1 < int (length (currentExamQuestions s1)) - 1
             then Inr (resetAnswer (s1\<lparr>currentQuestionIndex := currentQuestionIndex s1 + 1\<rparr>))
             else Inr (s1\<lparr>pendingFinish := pendingFinish s1 + 1\<rparr>)))"

definition previousQuestion :: "state \<Rightarrow> state" where
  "previousQuestion s =
     (if 0 < currentQuestionIndex s
      then (resetAnswer (s\<lparr>currentQuestionIndex := currentQuestionIndex s - 1\<rparr>))
             \<lparr>lastAnswerFeedback := None\<rparr>
      else s)"

definition jumpToQuestion :: "int \<Rightarrow> state \<Rightarrow> state" where
  "jumpToQuestion index s =
     (resetAnswer (s\<lparr>currentQuestionIndex := index\<rparr>))
       \<lparr>lastAnswerFeedback := None, currentPage := exam\<rparr>"

section \<open>utils.js: the parser of delimited text\<close>

text \<open>The three characters the tokenizer tests for.\<close>

definition dquote :: nat where
  "dquote = 34"

definition comma :: nat where
  "comma = 44"

definition newline :: nat where
  "newline = 10"

text \<open>\<open>String.prototype.trim()\<close> strips the white space and line terminator code
  points of ECMAScript from both ends.\<close>

definition isWhiteSpace :: "nat \<Rightarrow> bool" where
  "isWhiteSpace c =
     (c \<in> {9, 10, 11, 12, 13, 32, 160, 5760, 8232, 8233, 8239, 8287, 12288, 65279}
      \<or> (8192 \<le> c \<and> c \<le> 8202))"

definition trim :: "jsstring \<Rightarrow> jsstring" where
  "trim s = rev (dropWhile isWhiteSpace (rev (dropWhile isWhiteSpace s)))"

text \<open>\<open>text.split('\n')\<close>: the pieces between the separators, at least one.\<close>

fun splitOn :: "nat \<Rightarrow> jsstring \<Rightarrow> jsstring list" where
  "splitOn c [] = [[]]"
| "splitOn c (x # xs) =
     (if x = c then [] # splitOn c xs
      else (case splitOn c xs of [] \<Rightarrow> [[x]] | l # ls \<Rightarrow> (x # l) # ls))"

text \<open>\<open>s.replace(/\n+/g, ' ')\<close>: every maximal run of newlines becomes one space.\<close>

function replaceNewlines :: "jsstring \<Rightarrow> jsstring" where
  "replaceNewlines [] = []"
| "replaceNewlines (c # cs) =
     (if c = newline then 32 # replaceNewlines (dropWhile (\<lambda>x. x = newline) cs)
      else c # replaceNewlines cs)"
  by pat_completeness auto
termination
  by (relation "measure length") (auto simp: length_dropWhile_le le_imp_less_Suc)









definition zeroStatistics :: statistics where
  "zeroStatistics = \<lparr>consecutiveCorrect = 0, totalAttempts = 0, correctAttempts = 0\<rparr>"









section \<open>Notions used to state the properties\<close>

text \<open>An empty selection: the pending input is the empty form of the current
  question's type, the empty array for multiple choice and the empty string otherwise
  (what \<open>resetAnswer\<close> stores).\<close>

definition emptySelection :: "state \<Rightarrow> bool" where
  "emptySelection s =
     (userAnswer s =
        (if map_option type (currentQuestion s) = Some type_multi then Arr [] else Str []))"

text \<open>The statistics object an answer record is counted on: that of the first
  question of the bank with the record's \<open>questionId\<close>, if there is one.\<close>

definition target :: "ref question list \<Rightarrow> answer_record \<Rightarrow> ref option" where
  "target qs a = map_option statistics (find (\<lambda>q. id q = questionId a) qs)"

definition hits :: "ref question list \<Rightarrow> ref \<Rightarrow> answer_record list \<Rightarrow> answer_record list" where
  "hits qs r as = filter (\<lambda>a. target qs a = Some r) as"

text \<open>
  How statistics objects are shared in a bank the application builds:
  \<open>handleFileSelect\<close> leaves an imported question its own fresh object or gives it the
  saved object of its id, and \<open>loadSavedData\<close> reads the bank from JSON, which shares
  nothing. So two questions of a bank share a statistics object only if they have the
  same id.
\<close>

definition sharedById :: "ref question list \<Rightarrow> bool" where
  "sharedById qs =
     list_all (\<lambda>q. list_all (\<lambda>q'. statistics q = statistics q' \<longrightarrow> id q = id q') qs) qs"






text \<open>The two counters of a session count its answer records.\<close>

definition countersOK :: "state \<Rightarrow> bool" where
  "countersOK s = (currentExamCorrect s + currentExamIncorrect s = length (currentExamAnswers s))"




section \<open>A sample session\<close>

text \<open>
  Three questions: a single-choice question with answer B, a
  multiple-choice question with answer AC and a true/false question with answer A, each
  with its own statistics object, all zero. \<open>started\<close> is the session after
  \<open>startExam\<close>; \<open>answered1\<close> after B is chosen and submitted for the first question,
  \<open>answered2\<close> after C and A for the second, \<open>answered3\<close> after B for the third;
  \<open>finished\<close> is the state after the confirmed \<open>finishExam\<close>.
\<close>

definition sampleBank :: "ref question list" where
  "sampleBank =
     [\<lparr>id = ascii ''1'', type = type_single, question = ascii ''Q1'',
       options = [(ascii ''A'', ascii ''x''), (ascii ''B'', ascii ''y'')],
       answer = ascii ''B'', statistics = 0\<rparr>,
      \<lparr>id = ascii ''2'', type = type_multi, question = ascii ''Q2'',
       options = [(ascii ''A'', ascii ''x''), (ascii ''B'', ascii ''y''), (ascii ''C'', ascii ''z'')],
       answer = ascii ''AC'', statistics = 1\<rparr>,
      \<lparr>id = ascii ''3'', type = type_judge, question = ascii ''Q3'',
       options = [(ascii ''A'', option_right), (ascii ''B'', option_wrong)],
       answer = ascii ''A'', statistics = 2\<rparr>]"

definition idle :: state where
  "idle =
     \<lparr>currentPage = home, questions = sampleBank, heap = (\<lambda>r. zeroStatistics),
      currentExamQuestions = [], currentQuestionIndex = 0, userAnswer = Str [],
      currentExamAnswers = [], lastAnswerFeedback = None, currentExamCorrect = 0,
      currentExamIncorrect = 0, examHistory = [], consecutiveCorrectThreshold = 3,
      pendingFinish = 0\<rparr>"

definition started :: state where
  "started = startExam idle"

definition answered1 :: state where
  "answered1 =
     (case submitAnswer_app (started\<lparr>userAnswer := Str (ascii ''B'')\<rparr>) of
        Inr s \<Rightarrow> s | Inl e \<Rightarrow> started)"

definition sampleClock :: clock where
  "sampleClock = \<lparr>now = 1700000000000, iso1 = ascii ''t1'', iso2 = ascii ''t2''\<rparr>"

definition answered2 :: state where
  "answered2 =
     (case submitAnswer True sampleClock (answered1\<lparr>userAnswer := Arr [ascii ''C'', ascii ''A'']\<rparr>) of
        Inr s \<Rightarrow> s | Inl e \<Rightarrow> answered1)"

definition answered3 :: state where
  "answered3 =
     (case submitAnswer True sampleClock (answered2\<lparr>userAnswer := Str (ascii ''B'')\<rparr>) of
        Inr s \<Rightarrow> s | Inl e \<Rightarrow> answered2)"

definition finished :: state where
  "finished = finishExam True sampleClock answered3"

section \<open>Correctness of an answer\<close>

lemma join_empty_sep: "join [] xs = concat xs"
  by (induction "[] :: jsstring" xs rule: join.induct) simp_all

lemma sorted_split_chars: "sorted (split_chars s) = sorted s"
  by (induction s) (auto simp: split_chars_def)

lemma sort_split_chars: "sort (split_chars s) = split_chars (sort s)"
proof (rule properties_for_sort)
  show "mset (split_chars (sort s)) = mset (split_chars s)"
    by (simp add: split_chars_def)
  show "sorted (split_chars (sort s))"
    by (simp add: sorted_split_chars)
qed

lemma concat_split_chars: "concat (split_chars s) = s"
  by (induction s) (simp_all add: split_chars_def)

text \<open>The normal form of the correct answer is the string with its characters sorted.\<close>

lemma correctAns_sorted: "join [] (sort (split_chars c)) = sort c"
  by (simp add: join_empty_sep sort_split_chars concat_split_chars)

lemma single_labels: "\<forall>l\<in>set xs. length l = 1 \<Longrightarrow> xs = split_chars (concat xs)"
proof (induction xs)
  case Nil
  then show ?case by (simp add: split_chars_def)
next
  case (Cons l xs)
  then obtain c where "l = [c]" by (cases l) auto
  with Cons show ?case by (simp add: split_chars_def)
qed

lemma sort_eq_iff_mset: "sort xs = sort ys \<longleftrightarrow> mset xs = mset ys"
proof
  assume "sort xs = sort ys"
  then have "mset (sort xs) = mset (sort ys)" by simp
  then show "mset xs = mset ys" by simp
next
  assume "mset xs = mset ys"
  then show "sort xs = sort ys" by (simp add: properties_for_sort)
qed

lemma checkAnswer_single_labels:
  assumes "\<forall>l\<in>set xs. length l = 1"
  shows "checkAnswer (Arr xs) c type_multi = (mset (concat xs) = mset c)"
proof -
  have "xs = split_chars (concat xs)" using assms by (rule single_labels)
  then have "join [] (sort xs) = sort (concat xs)"
    by (metis correctAns_sorted)
  then show ?thesis
    by (simp add: checkAnswer_def correctAns_sorted sort_eq_iff_mset)
qed

lemma distinct_concat_single:
  "\<forall>l\<in>set xs. length l = 1 \<Longrightarrow> distinct xs \<Longrightarrow> distinct (concat xs)"
proof (induction xs)
  case Nil
  then show ?case by simp
next
  case (Cons l xs)
  then obtain c where l: "l = [c]" by (cases l) auto
  have "c \<notin> set (concat xs)"
  proof
    assume "c \<in> set (concat xs)"
    then obtain m where m: "m \<in> set xs" "c \<in> set m" by auto
    with Cons.prems(1) have lm: "length m = 1" by simp
    have "m = [c]" using m(2) lm by (auto simp: length_Suc_conv)
    with m l Cons.prems(2) show False by simp
  qed
  with Cons l show ?case by simp
qed

text \<open>
  Claim C7, as the code has it. For a multiple-choice question the evaluation does not
  depend on the order of the submitted labels: two submissions with the same labels,
  in any order, get the same verdict. A submission of one-character labels is judged
  correct exactly when its labels and the characters of the correct answer are the same
  with the same multiplicities; when neither repeats a label, exactly when the two label
  sets are equal. The submissions C, A and A, C are both correct for the answer AC.
\<close>

theorem checkAnswer_multi_order_independent:
  "(mset xs = mset ys \<longrightarrow>
      checkAnswer (Arr xs) c type_multi = checkAnswer (Arr ys) c type_multi)
   \<and> ((\<forall>l\<in>set xs. length l = 1) \<longrightarrow>
      checkAnswer (Arr xs) c type_multi = (mset (concat xs) = mset c))
   \<and> ((\<forall>l\<in>set xs. length l = 1) \<and> distinct xs \<and> distinct c \<longrightarrow>
      checkAnswer (Arr xs) c type_multi = (set (concat xs) = set c))
   \<and> checkAnswer (Arr [ascii ''C'', ascii ''A'']) (ascii ''AC'') type_multi
   \<and> checkAnswer (Arr [ascii ''A'', ascii ''C'']) (ascii ''AC'') type_multi"
proof (intro conjI impI)
  assume "mset xs = mset ys"
  then have "sort xs = sort ys" by (simp add: sort_eq_iff_mset)
  then show "checkAnswer (Arr xs) c type_multi = checkAnswer (Arr ys) c type_multi"
    by (simp add: checkAnswer_def)
next
  assume "\<forall>l\<in>set xs. length l = 1"
  then show "checkAnswer (Arr xs) c type_multi = (mset (concat xs) = mset c)"
    by (rule checkAnswer_single_labels)
next
  assume a: "(\<forall>l\<in>set xs. length l = 1) \<and> distinct xs \<and> distinct c"
  then have "distinct (concat xs)" by (simp add: distinct_concat_single)
  with a have "(mset (concat xs) = mset c) = (set (concat xs) = set c)"
    using set_eq_iff_mset_eq_distinct [of "concat xs" c] by blast
  with a show "checkAnswer (Arr xs) c type_multi = (set (concat xs) = set c)"
    by (simp add: checkAnswer_single_labels)
next
  show "checkAnswer (Arr [ascii ''C'', ascii ''A'']) (ascii ''AC'') type_multi"
    by (simp add: checkAnswer_def ascii_def split_chars_def)
next
  show "checkAnswer (Arr [ascii ''A'', ascii ''C'']) (ascii ''AC'') type_multi"
    by (simp add: checkAnswer_def ascii_def split_chars_def)
qed

text \<open>The theorem at the submissions C, A and A, C and the answer AC: the same verdict,
  and the verdict of set equality.\<close>

theorem checkAnswer_multi_order_independent_witness:
  "checkAnswer (Arr [ascii ''C'', ascii ''A'']) (ascii ''AC'') type_multi
     = checkAnswer (Arr [ascii ''A'', ascii ''C'']) (ascii ''AC'') type_multi
   \<and> checkAnswer (Arr [ascii ''C'', ascii ''A'']) (ascii ''AC'') type_multi
     = (set (concat [ascii ''C'', ascii ''A'']) = set (ascii ''AC''))"
  using checkAnswer_multi_order_independent
    [of "[ascii ''C'', ascii ''A'']" "[ascii ''A'', ascii ''C'']" "ascii ''AC''"]
  by (auto simp: ascii_def)

text \<open>Set equality alone does not decide the verdict: for the correct answer AA the
  submission A has the same label set, and is judged incorrect.\<close>

theorem checkAnswer_multi_counterexample:
  "set (concat [ascii ''A'']) = set (ascii ''AA'')
   \<and> \<not> checkAnswer (Arr [ascii ''A'']) (ascii ''AA'') type_multi"
  by (simp add: checkAnswer_def ascii_def split_chars_def)

text \<open>
  Claim C9. For a multiple-choice question a submission that is a plain string, not an
  array of labels, is normalised to the empty string: it is judged correct exactly when
  the correct answer is the empty string, so never for a correct answer that names a
  label.
\<close>

theorem checkAnswer_string_multi: "checkAnswer (Str s) c type_multi = (c = [])"
proof -
  have "([] = sort c) = (c = [])"
    by (metis length_sort length_0_conv)
  then show ?thesis by (simp add: checkAnswer_def correctAns_sorted)
qed

section \<open>The session engine\<close>

lemma currentQuestion_nth: "currentQuestion s = nth_js (currentExamQuestions s) (currentQuestionIndex s)"
  by (simp add: currentQuestion_def nth_js_def)

lemma emptySelection_hasAnswer: "emptySelection s \<Longrightarrow> \<not> hasAnswer s"
  by (simp add: emptySelection_def hasAnswer_def split: if_splits)

lemma currentQuestion_feedback [simp]:
  "currentQuestion (s\<lparr>lastAnswerFeedback := f\<rparr>) = currentQuestion s"
  by (simp add: currentQuestion_def)

lemma hasAnswer_feedback [simp]: "hasAnswer (s\<lparr>lastAnswerFeedback := f\<rparr>) = hasAnswer s"
  by (auto simp: hasAnswer_def)

lemma resetAnswer_eq:
  "resetAnswer s = s\<lparr>userAnswer :=
     (if map_option type (currentQuestion s) = Some type_multi then Arr [] else Str [])\<rparr>"
  by (simp add: resetAnswer_def)

lemma updateQuestionStats_eq:
  "updateQuestionStats s =
     s\<lparr>heap := foldl (applyAnswer (questions s)) (heap s) (currentExamAnswers s)\<rparr>"
  by (simp add: updateQuestionStats_def)

lemma finishExam_session:
  "currentExamAnswers (finishExam confirm clk s) = currentExamAnswers s
   \<and> currentExamCorrect (finishExam confirm clk s) = currentExamCorrect s
   \<and> currentExamIncorrect (finishExam confirm clk s) = currentExamIncorrect s
   \<and> lastAnswerFeedback (finishExam confirm clk s) = lastAnswerFeedback s"
  by (simp add: finishExam_def updateQuestionStats_def Let_def)

lemma started_eq:
  "started = idle\<lparr>currentExamQuestions := sampleBank, currentPage := exam\<rparr>"
  by (simp add: started_def startExam_def idle_def availableQuestions_def resetAnswer_def
      currentQuestion_def nth_js_def sampleBank_def zeroStatistics_def type_single_def type_multi_def)

lemma answered1_eq:
  "answered1 = idle\<lparr>currentExamQuestions := sampleBank, currentPage := exam,
      currentQuestionIndex := 1, userAnswer := Arr [],
      currentExamAnswers := [\<lparr>questionId = ascii ''1'', question_a = ascii ''Q1'',
         userAnswer_a = ascii ''B'', correctAnswer_a = ascii ''B'', isCorrect = True\<rparr>],
      currentExamCorrect := 1,
      lastAnswerFeedback := Some \<lparr>questionIndex = 1, userAnswer_f = ascii ''B'',
         correctAnswer_f = ascii ''B'', isCorrect_f = True\<rparr>\<rparr>"
  by (simp add: answered1_def started_eq submitAnswer_app_def hasAnswer_def recordAnswer_def
      checkAnswer_def resetAnswer_def currentQuestion_def nth_js_def idle_def sampleBank_def
      type_single_def type_multi_def ascii_def)


text \<open>
  Claim C1, as the code has it. A submit with an empty selection appends no answer
  record and leaves both counters as they are, in both versions of
  \<open>submitAnswer\<close>. The version of part_000 clears the feedback of the previous
  question; the version of src/js/app.js returns at once and changes nothing, so a
  feedback that is shown stays.
\<close>

theorem submitAnswer_empty_selection:
  assumes "emptySelection s"
  shows "(\<exists>s'. submitAnswer confirm clk s = Inr s'
            \<and> currentExamAnswers s' = currentExamAnswers s
            \<and> currentExamCorrect s' = currentExamCorrect s
            \<and> currentExamIncorrect s' = currentExamIncorrect s
            \<and> lastAnswerFeedback s' = None)
         \<and> submitAnswer_app s = Inr s"
proof -
  from assms have n: "\<not> hasAnswer s" by (rule emptySelection_hasAnswer)
  then have "submitAnswer_app s = Inr s" by (simp add: submitAnswer_app_def)
  moreover
  from n have "\<exists>s'. submitAnswer confirm clk s = Inr s'
            \<and> currentExamAnswers s' = currentExamAnswers s
            \<and> currentExamCorrect s' = currentExamCorrect s
            \<and> currentExamIncorrect s' = currentExamIncorrect s
            \<and> lastAnswerFeedback s' = None"
    by (simp add: submitAnswer_def resetAnswer_eq finishExam_session)
  ultimately show ?thesis by simp
qed

lemma answered1_empty: "emptySelection answered1"
  by (simp add: answered1_eq emptySelection_def currentQuestion_def nth_js_def idle_def
      sampleBank_def)

theorem submitAnswer_empty_selection_witness:
  "(\<exists>s'. submitAnswer True sampleClock answered1 = Inr s'
            \<and> currentExamAnswers s' = currentExamAnswers answered1
            \<and> currentExamCorrect s' = currentExamCorrect answered1
            \<and> currentExamIncorrect s' = currentExamIncorrect answered1
            \<and> lastAnswerFeedback s' = None)
   \<and> submitAnswer_app answered1 = Inr answered1"
  using submitAnswer_empty_selection [OF answered1_empty] .

text \<open>In the session \<open>answered1\<close> the first question has been answered and its
  feedback is shown; the selection for the second question is empty. The submit of
  src/js/app.js leaves that feedback in place.\<close>

theorem submitAnswer_app_counterexample:
  "emptySelection answered1
   \<and> currentPage answered1 = exam
   \<and> submitAnswer_app answered1 = Inr answered1
   \<and> lastAnswerFeedback answered1 \<noteq> None"
  by (simp add: answered1_empty submitAnswer_app_def emptySelection_hasAnswer)
     (simp add: answered1_eq idle_def)

text \<open>
  Claim C2, as the code has it. \<open>jumpToQuestion\<close> does not check its index: for every
  index, inside the session range or outside it, the pointer becomes that index, the
  pending input becomes the empty form of the question at that index (the empty string
  when there is none), the feedback is cleared and the exam page is shown. The answers,
  the counters, the session's questions, the bank, the statistics and the history are
  unchanged.
\<close>

theorem jumpToQuestion_any_index:
  "currentQuestionIndex (jumpToQuestion index s) = index
   \<and> userAnswer (jumpToQuestion index s) =
       (if map_option type (nth_js (currentExamQuestions s) index) = Some type_multi
        then Arr [] else Str [])
   \<and> lastAnswerFeedback (jumpToQuestion index s) = None
   \<and> currentPage (jumpToQuestion index s) = exam
   \<and> currentExamAnswers (jumpToQuestion index s) = currentExamAnswers s
   \<and> currentExamCorrect (jumpToQuestion index s) = currentExamCorrect s
   \<and> currentExamIncorrect (jumpToQuestion index s) = currentExamIncorrect s
   \<and> currentExamQuestions (jumpToQuestion index s) = currentExamQuestions s
   \<and> questions (jumpToQuestion index s) = questions s
   \<and> heap (jumpToQuestion index s) = heap s
   \<and> examHistory (jumpToQuestion index s) = examHistory s"
  by (simp add: jumpToQuestion_def resetAnswer_eq currentQuestion_nth)

text \<open>A jump to index 7 in a session of three questions: the pointer moves from 1 to 7
  and the feedback is cleared.\<close>

theorem jumpToQuestion_counterexample:
  "length (currentExamQuestions answered1) = 3
   \<and> currentQuestionIndex answered1 = 1
   \<and> currentQuestionIndex (jumpToQuestion 7 answered1) = 7
   \<and> lastAnswerFeedback answered1 \<noteq> None
   \<and> lastAnswerFeedback (jumpToQuestion 7 answered1) = None"
  by (simp add: answered1_eq jumpToQuestion_def resetAnswer_eq idle_def sampleBank_def)

text \<open>
  Claim C6. \<open>finishExam\<close> with no recorded answer, or with the confirmation declined,
  returns the state as it is: no statistics update, no history entry, the page stays.
  With at least one answer and the confirmation given, the statistics are updated by
  one run of \<open>updateQuestionStats\<close> over the session's answers, one new record (the
  answers and the score of the session) is put in front of the history, and the report
  page is shown; nothing else changes.
\<close>

theorem finishExam_guarded:
  "(length (currentExamAnswers s) = 0 \<or> \<not> confirm \<longrightarrow> finishExam confirm clk s = s)
   \<and> (0 < length (currentExamAnswers s) \<and> confirm \<longrightarrow>
        finishExam confirm clk s =
          s\<lparr>heap := foldl (applyAnswer (questions s)) (heap s) (currentExamAnswers s),
            examHistory :=
              \<lparr>examId = now clk, startTime = iso1 clk, endTime = iso2 clk,
               answers = currentExamAnswers s, score = currentExamScore s\<rparr> # examHistory s,
            currentPage := report\<rparr>
        \<and> heap (finishExam confirm clk s) = heap (updateQuestionStats s))"
  by (auto simp: finishExam_def updateQuestionStats_def currentExamScore_def Let_def)

theorem finishExam_guarded_witness:
  "finishExam True sampleClock started = started
   \<and> finishExam False sampleClock answered1 = answered1
   \<and> currentPage (finishExam True sampleClock answered1) = report
   \<and> length (examHistory (finishExam True sampleClock answered1)) = 1
   \<and> heap (finishExam True sampleClock answered1) = heap (updateQuestionStats answered1)"
proof -
  have a: "length (currentExamAnswers started) = 0"
    by (simp add: started_eq idle_def)
  have b: "0 < length (currentExamAnswers answered1)" "examHistory answered1 = []"
    by (simp_all add: answered1_eq idle_def)
  show ?thesis
    using finishExam_guarded [of started True sampleClock]
      finishExam_guarded [of answered1 False sampleClock]
      finishExam_guarded [of answered1 True sampleClock] a b
    by (simp add: updateQuestionStats_def)
qed

section \<open>The statistics update\<close>

lemma applyAnswer_miss: "target qs a \<noteq> Some r \<Longrightarrow> applyAnswer qs h a r = h r"
  by (auto simp: applyAnswer_def target_def Let_def split: option.splits)

lemma applyAnswer_none: "target qs a = None \<Longrightarrow> applyAnswer qs h a = h"
  by (auto simp: applyAnswer_def target_def split: option.splits)

lemma applyAnswer_hit:
  "target qs a = Some r \<Longrightarrow>
   applyAnswer qs h a r =
     (if isCorrect a
      then (h r)\<lparr>totalAttempts := totalAttempts (h r) + 1,
                 correctAttempts := correctAttempts (h r) + 1,
                 consecutiveCorrect := consecutiveCorrect (h r) + 1\<rparr>
      else (h r)\<lparr>totalAttempts := totalAttempts (h r) + 1, consecutiveCorrect := 0\<rparr>)"
  by (auto simp: applyAnswer_def target_def Let_def split: option.splits)

lemma hits_snoc:
  "hits qs r (as @ [a]) = hits qs r as @ (if target qs a = Some r then [a] else [])"
  by (simp add: hits_def)

lemma foldl_total:
  "totalAttempts (foldl (applyAnswer qs) h as r) = totalAttempts (h r) + length (hits qs r as)"
proof (induction as rule: rev_induct)
  case Nil
  show ?case by (simp add: hits_def)
next
  case (snoc a as)
  show ?case
  proof (cases "target qs a = Some r")
    case True
    then show ?thesis using snoc by (simp add: hits_snoc applyAnswer_hit)
  next
    case False
    then show ?thesis using snoc by (simp add: hits_snoc applyAnswer_miss)
  qed
qed

lemma foldl_correct:
  "correctAttempts (foldl (applyAnswer qs) h as r) =
     correctAttempts (h r) + length (filter isCorrect (hits qs r as))"
proof (induction as rule: rev_induct)
  case Nil
  show ?case by (simp add: hits_def)
next
  case (snoc a as)
  show ?case
  proof (cases "target qs a = Some r")
    case True
    then show ?thesis using snoc by (simp add: hits_snoc applyAnswer_hit)
  next
    case False
    then show ?thesis using snoc by (simp add: hits_snoc applyAnswer_miss)
  qed
qed

text \<open>The streak after a session: it grows by the number of answers when all of them
  are correct, and otherwise counts the correct answers after the last incorrect one.\<close>

lemma foldl_streak:
  "consecutiveCorrect (foldl (applyAnswer qs) h as r) =
     (if list_all isCorrect (hits qs r as)
      then consecutiveCorrect (h r) + length (hits qs r as)
      else length (takeWhile isCorrect (rev (hits qs r as))))"
proof (induction as rule: rev_induct)
  case Nil
  show ?case by (simp add: hits_def)
next
  case (snoc a as)
  show ?case
  proof (cases "target qs a = Some r")
    case True
    then show ?thesis using snoc by (simp add: hits_snoc applyAnswer_hit)
  next
    case False
    then show ?thesis using snoc by (simp add: hits_snoc applyAnswer_miss)
  qed
qed

lemma length_filter_split:
  "length xs = length (filter P xs) + length (filter (\<lambda>x. \<not> P x) xs)"
  by (induction xs) simp_all

lemma foldl_skip:
  "foldl (applyAnswer qs) h as =
     foldl (applyAnswer qs) h (filter (\<lambda>a. target qs a \<noteq> None) as)"
  by (induction as arbitrary: h) (simp_all add: applyAnswer_none)

lemma foldl_frame:
  "hits qs r as = [] \<Longrightarrow> foldl (applyAnswer qs) h as r = h r"
proof (induction as arbitrary: h)
  case Nil
  show ?case by simp
next
  case (Cons a as)
  from Cons.prems have t: "target qs a \<noteq> Some r" and r: "hits qs r as = []"
    by (auto simp: hits_def split: if_splits)
  show ?case using Cons.IH [OF r] t by (simp add: applyAnswer_miss)
qed

lemma find_Some_D: "find P xs = Some x \<Longrightarrow> x \<in> set xs \<and> P x"
  by (induction xs) (auto split: if_splits)

lemma target_Some_D:
  "target qs a = Some r \<Longrightarrow> \<exists>q\<in>set qs. id q = questionId a \<and> statistics q = r"
  by (auto simp: target_def dest: find_Some_D)

lemma sharedById_D:
  assumes "sharedById qs" "q \<in> set qs" "q' \<in> set qs" "statistics q = statistics q'"
  shows "id q = id q'"
proof -
  from assms(1)
  have "\<forall>q\<in>set qs. \<forall>q'\<in>set qs. statistics q = statistics q' \<longrightarrow> id q = id q'"
    unfolding sharedById_def list_all_iff .
  with assms(2,3,4) show ?thesis by blast
qed

lemma hits_unreferenced:
  assumes "sharedById qs" "q \<in> set qs" "id q \<notin> questionId ` set as"
  shows "hits qs (statistics q) as = []"
proof -
  have "target qs a \<noteq> Some (statistics q)" if "a \<in> set as" for a
  proof
    assume "target qs a = Some (statistics q)"
    then obtain q' where q': "q' \<in> set qs" "id q' = questionId a" "statistics q' = statistics q"
      using target_Some_D by blast
    have "id q' = id q" by (rule sharedById_D [OF assms(1) q'(1) assms(2) q'(3)])
    with q'(2) that assms(3) show False by (metis imageI)
  qed
  then show ?thesis by (auto simp: hits_def filter_empty_conv)
qed

lemma find_distinct_id:
  "distinct (map f xs) \<Longrightarrow> x \<in> set xs \<Longrightarrow> find (\<lambda>y. f y = f x) xs = Some x"
  by (induction xs) (auto simp: image_iff)

lemma hits_by_id:
  assumes "sharedById qs" "q \<in> set qs" "distinct (map id qs)"
  shows "hits qs (statistics q) as = filter (\<lambda>a. questionId a = id q) as"
proof -
  have "(target qs a = Some (statistics q)) = (questionId a = id q)" for a
  proof
    assume "target qs a = Some (statistics q)"
    then obtain q' where q': "q' \<in> set qs" "id q' = questionId a" "statistics q' = statistics q"
      using target_Some_D by blast
    have "id q' = id q" by (rule sharedById_D [OF assms(1) q'(1) assms(2) q'(3)])
    with q' show "questionId a = id q" by simp
  next
    assume "questionId a = id q"
    then show "target qs a = Some (statistics q)"
      using find_distinct_id [OF assms(3,2)] by (simp add: target_def)
  qed
  then show ?thesis by (simp add: hits_def)
qed

lemma heap_updateQuestionStats:
  "heap (updateQuestionStats s) =
     foldl (applyAnswer (questions s)) (heap s) (currentExamAnswers s)"
  by (simp add: updateQuestionStats_def)

lemma answered1_bank:
  "questions answered1 = sampleBank"
  "heap answered1 = (\<lambda>r. zeroStatistics)"
  "currentExamAnswers answered1 =
     [\<lparr>questionId = ascii ''1'', question_a = ascii ''Q1'', userAnswer_a = ascii ''B'',
       correctAnswer_a = ascii ''B'', isCorrect = True\<rparr>]"
  by (simp_all add: answered1_eq idle_def)

lemma sample_hits:
  "hits sampleBank 0 (currentExamAnswers answered1) = currentExamAnswers answered1"
  "hits sampleBank 2 (currentExamAnswers answered1) = []"
  by (simp_all add: answered1_bank hits_def target_def sampleBank_def ascii_def)

lemma sampleBank_shared: "sharedById sampleBank" "distinct (map id sampleBank)"
  by (simp_all add: sharedById_def sampleBank_def ascii_def)


text \<open>
  Claim C5. \<open>updateQuestionStats\<close> counts every answer record on the statistics of
  the question it refers to (the first question of the bank with its id). One answer
  adds one to \<open>totalAttempts\<close>; a correct one also adds one to \<open>correctAttempts\<close>
  and to \<open>consecutiveCorrect\<close>, an incorrect one sets \<open>consecutiveCorrect\<close> to 0 and
  leaves \<open>correctAttempts\<close>. Over the answers of a session, for every statistics
  object: \<open>totalAttempts\<close> grows by the number of answers counted on it and
  \<open>correctAttempts\<close> by the number of correct ones, neither decreases, and
  \<open>totalAttempts\<close> stays equal to \<open>correctAttempts\<close> plus the number of incorrect
  answers (those counted before, \<open>k\<close>, and those of the session). In a bank
  with distinct ids the answers counted on a question are those with its id.
\<close>

theorem updateQuestionStats_counts:
  "(target qs a = Some r \<longrightarrow>
      applyAnswer qs h a r =
        (if isCorrect a
         then (h r)\<lparr>totalAttempts := totalAttempts (h r) + 1,
                    correctAttempts := correctAttempts (h r) + 1,
                    consecutiveCorrect := consecutiveCorrect (h r) + 1\<rparr>
         else (h r)\<lparr>totalAttempts := totalAttempts (h r) + 1, consecutiveCorrect := 0\<rparr>))
   \<and> totalAttempts (heap (updateQuestionStats s) r) =
       totalAttempts (heap s r) + length (hits (questions s) r (currentExamAnswers s))
   \<and> correctAttempts (heap (updateQuestionStats s) r) =
       correctAttempts (heap s r)
         + length (filter isCorrect (hits (questions s) r (currentExamAnswers s)))
   \<and> totalAttempts (heap s r) \<le> totalAttempts (heap (updateQuestionStats s) r)
   \<and> correctAttempts (heap s r) \<le> correctAttempts (heap (updateQuestionStats s) r)
   \<and> (totalAttempts (heap s r) = correctAttempts (heap s r) + k \<longrightarrow>
        totalAttempts (heap (updateQuestionStats s) r) =
          correctAttempts (heap (updateQuestionStats s) r) + k
            + length (filter (\<lambda>a. \<not> isCorrect a) (hits (questions s) r (currentExamAnswers s))))
   \<and> consecutiveCorrect (heap (updateQuestionStats s) r) =
       (if list_all isCorrect (hits (questions s) r (currentExamAnswers s))
        then consecutiveCorrect (heap s r) + length (hits (questions s) r (currentExamAnswers s))
        else length (takeWhile isCorrect (rev (hits (questions s) r (currentExamAnswers s)))))
   \<and> (sharedById (questions s) \<and> q \<in> set (questions s) \<and> distinct (map id (questions s)) \<longrightarrow>
        hits (questions s) (statistics q) (currentExamAnswers s) =
          filter (\<lambda>a. questionId a = id q) (currentExamAnswers s))"
proof (intro conjI impI)
  assume "target qs a = Some r"
  then show "applyAnswer qs h a r =
        (if isCorrect a
         then (h r)\<lparr>totalAttempts := totalAttempts (h r) + 1,
                    correctAttempts := correctAttempts (h r) + 1,
                    consecutiveCorrect := consecutiveCorrect (h r) + 1\<rparr>
         else (h r)\<lparr>totalAttempts := totalAttempts (h r) + 1, consecutiveCorrect := 0\<rparr>)"
    by (rule applyAnswer_hit)
next
  show t: "totalAttempts (heap (updateQuestionStats s) r) =
       totalAttempts (heap s r) + length (hits (questions s) r (currentExamAnswers s))"
    by (simp add: updateQuestionStats_def foldl_total)
  show c: "correctAttempts (heap (updateQuestionStats s) r) =
       correctAttempts (heap s r)
         + length (filter isCorrect (hits (questions s) r (currentExamAnswers s)))"
    by (simp add: updateQuestionStats_def foldl_correct)
  show "totalAttempts (heap s r) \<le> totalAttempts (heap (updateQuestionStats s) r)"
    using t by simp
  show "correctAttempts (heap s r) \<le> correctAttempts (heap (updateQuestionStats s) r)"
    using c by simp
  show "consecutiveCorrect (heap (updateQuestionStats s) r) =
       (if list_all isCorrect (hits (questions s) r (currentExamAnswers s))
        then consecutiveCorrect (heap s r) + length (hits (questions s) r (currentExamAnswers s))
        else length (takeWhile isCorrect (rev (hits (questions s) r (currentExamAnswers s)))))"
    unfolding heap_updateQuestionStats by (rule foldl_streak)
  {
    assume "totalAttempts (heap s r) = correctAttempts (heap s r) + k"
    then show "totalAttempts (heap (updateQuestionStats s) r) =
          correctAttempts (heap (updateQuestionStats s) r) + k
            + length (filter (\<lambda>a. \<not> isCorrect a) (hits (questions s) r (currentExamAnswers s)))"
      using t c length_filter_split [of "hits (questions s) r (currentExamAnswers s)" isCorrect]
      by simp
  }
next
  assume "sharedById (questions s) \<and> q \<in> set (questions s) \<and> distinct (map id (questions s))"
  then show "hits (questions s) (statistics q) (currentExamAnswers s) =
          filter (\<lambda>a. questionId a = id q) (currentExamAnswers s)"
    by (simp add: hits_by_id)
qed

text \<open>The theorem in the sample session, for the statistics of its first question.\<close>

theorem updateQuestionStats_counts_witness:
  "totalAttempts (heap (updateQuestionStats answered1) 0) = 1
   \<and> correctAttempts (heap (updateQuestionStats answered1) 0) = 1
   \<and> consecutiveCorrect (heap (updateQuestionStats answered1) 0) = 1
   \<and> hits sampleBank (statistics (sampleBank ! 0)) (currentExamAnswers answered1) =
       filter (\<lambda>a. questionId a = id (sampleBank ! 0)) (currentExamAnswers answered1)"
proof -
  have q: "sampleBank ! 0 \<in> set sampleBank" by (simp add: sampleBank_def)
  show ?thesis
    using updateQuestionStats_counts [where s = answered1 and r = 0 and k = 0
        and q = "sampleBank ! 0" and qs = sampleBank and h = "heap answered1"
        and a = "hd (currentExamAnswers answered1)"]
      q sampleBank_shared
    by (simp add: answered1_bank(1,2) sample_hits zeroStatistics_def)
       (simp add: answered1_bank(3))
qed


text \<open>
  Claim C10. An answer record whose \<open>questionId\<close> is the id of no question of the
  bank changes nothing, so the update is the update by the records that do refer to a
  question. A statistics object on which no answer of the session is counted is left as
  it is; in a bank where statistics objects are shared between questions of the same
  id only, this holds for every question whose id no answer record has. The bank and the
  rest of the state are unchanged.
\<close>

theorem updateQuestionStats_frame:
  "(target (questions s) a = None \<longrightarrow> applyAnswer (questions s) h a = h)
   \<and> heap (updateQuestionStats s) =
       foldl (applyAnswer (questions s)) (heap s)
         (filter (\<lambda>a. target (questions s) a \<noteq> None) (currentExamAnswers s))
   \<and> (hits (questions s) r (currentExamAnswers s) = [] \<longrightarrow>
        heap (updateQuestionStats s) r = heap s r)
   \<and> (sharedById (questions s) \<and> q \<in> set (questions s)
        \<and> id q \<notin> questionId ` set (currentExamAnswers s) \<longrightarrow>
        heap (updateQuestionStats s) (statistics q) = heap s (statistics q))
   \<and> updateQuestionStats s = s\<lparr>heap := heap (updateQuestionStats s)\<rparr>"
proof (intro conjI impI)
  assume "target (questions s) a = None"
  then show "applyAnswer (questions s) h a = h" by (rule applyAnswer_none)
next
  show "heap (updateQuestionStats s) =
       foldl (applyAnswer (questions s)) (heap s)
         (filter (\<lambda>a. target (questions s) a \<noteq> None) (currentExamAnswers s))"
    using foldl_skip [of "questions s" "heap s" "currentExamAnswers s"]
    by (simp add: updateQuestionStats_def)
next
  assume "hits (questions s) r (currentExamAnswers s) = []"
  then show "heap (updateQuestionStats s) r = heap s r"
    by (simp add: updateQuestionStats_def foldl_frame)
next
  assume "sharedById (questions s) \<and> q \<in> set (questions s)
        \<and> id q \<notin> questionId ` set (currentExamAnswers s)"
  then have "hits (questions s) (statistics q) (currentExamAnswers s) = []"
    by (simp add: hits_unreferenced)
  then show "heap (updateQuestionStats s) (statistics q) = heap s (statistics q)"
    by (simp add: updateQuestionStats_def foldl_frame)
next
  show "updateQuestionStats s = s\<lparr>heap := heap (updateQuestionStats s)\<rparr>"
    by (simp add: updateQuestionStats_def)
qed

text \<open>The theorem in the sample session, for its third question, which no answer
  refers to.\<close>

theorem updateQuestionStats_frame_witness:
  "heap (updateQuestionStats answered1) (statistics (sampleBank ! 2))
     = heap answered1 (statistics (sampleBank ! 2))
   \<and> heap (updateQuestionStats answered1) 2 = zeroStatistics"
proof -
  have q: "sampleBank ! 2 \<in> set sampleBank" "statistics (sampleBank ! 2) = 2"
    "id (sampleBank ! 2) \<notin> questionId ` set (currentExamAnswers answered1)"
    by (simp_all add: sampleBank_def answered1_bank(3) ascii_def)
  have "heap (updateQuestionStats answered1) (statistics (sampleBank ! 2))
     = heap answered1 (statistics (sampleBank ! 2))"
    using updateQuestionStats_frame [where s = answered1 and q = "sampleBank ! 2",
        unfolded answered1_bank(1)]
      q(1,3) sampleBank_shared(1)
    by blast
  then show ?thesis using q(2) by (simp add: answered1_bank(2))
qed

section \<open>The tokenizer\<close>

lemma splitOn_nonempty [simp]: "splitOn c xs \<noteq> []"
  by (induction xs) (auto split: list.splits)


lemma splitOn_other:
  "x \<noteq> c \<Longrightarrow> splitOn c (x # xs) = (x # hd (splitOn c xs)) # tl (splitOn c xs)"
  by (cases "splitOn c xs") simp_all

lemma chars_distinct [simp]:
  "dquote \<noteq> newline" "newline \<noteq> dquote" "comma \<noteq> newline" "newline \<noteq> comma"
  "dquote \<noteq> comma" "comma \<noteq> dquote"
  by (simp_all add: dquote_def newline_def comma_def)



declare splitOn.simps [simp del]










lemma trim_Nil [simp]: "trim [] = []"
  by (simp add: trim_def)













section \<open>The records of a parse\<close>







lemma replaceNewlines_id: "newline \<notin> set s \<Longrightarrow> replaceNewlines s = s"
  by (induction s) auto
























section \<open>The accuracy of a score\<close>






lemma pow2_pos [simp]: "(0::rat) < 2 powi k"
  by (simp add: zero_less_power_int)





lemma fl_zero [simp]: "fl 0 = 0"
  by (simp add: fl_def)









lemma calculateAccuracy_examples:
  "calculateAccuracy 0 0 = ascii ''0%''"
  "calculateAccuracy 1 3 = ascii ''33.3%''"
  "calculateAccuracy 2 3 = ascii ''66.7%''"
  by code_simp+

text \<open>The sample session to its end: the score is 2 of 3, 66.7%; the streaks of the
  first two questions are 1 and that of the third is 0.\<close>

lemma answered2_eq:
  "answered2 = idle\<lparr>currentExamQuestions := sampleBank, currentPage := exam,
      currentQuestionIndex := 2, userAnswer := Str [],
      currentExamAnswers :=
        [\<lparr>questionId = ascii ''1'', question_a = ascii ''Q1'',
          userAnswer_a = ascii ''B'', correctAnswer_a = ascii ''B'', isCorrect = True\<rparr>,
         \<lparr>questionId = ascii ''2'', question_a = ascii ''Q2'',
          userAnswer_a = ascii ''AC'', correctAnswer_a = ascii ''AC'', isCorrect = True\<rparr>],
      currentExamCorrect := 2,
      lastAnswerFeedback := Some \<lparr>questionIndex = 2, userAnswer_f = ascii ''AC'',
         correctAnswer_f = ascii ''AC'', isCorrect_f = True\<rparr>\<rparr>"
  by (simp add: answered2_def answered1_eq submitAnswer_def hasAnswer_def recordAnswer_def
      checkAnswer_def resetAnswer_def currentQuestion_def nth_js_def idle_def sampleBank_def
      type_single_def type_multi_def type_judge_def ascii_def split_chars_def)

lemma answered3_eq:
  "answered3 = idle\<lparr>currentExamQuestions := sampleBank, currentPage := exam,
      currentQuestionIndex := 2, userAnswer := Str (ascii ''B''),
      currentExamAnswers :=
        [\<lparr>questionId = ascii ''1'', question_a = ascii ''Q1'',
          userAnswer_a = ascii ''B'', correctAnswer_a = ascii ''B'', isCorrect = True\<rparr>,
         \<lparr>questionId = ascii ''2'', question_a = ascii ''Q2'',
          userAnswer_a = ascii ''AC'', correctAnswer_a = ascii ''AC'', isCorrect = True\<rparr>,
         \<lparr>questionId = ascii ''3'', question_a = ascii ''Q3'',
          userAnswer_a = ascii ''B'', correctAnswer_a = ascii ''A'', isCorrect = False\<rparr>],
      currentExamCorrect := 2, currentExamIncorrect := 1,
      lastAnswerFeedback := Some \<lparr>questionIndex = 3, userAnswer_f = ascii ''B'',
         correctAnswer_f = ascii ''A'', isCorrect_f = False\<rparr>,
      pendingFinish := 1\<rparr>"
  by (simp add: answered3_def answered2_eq submitAnswer_def hasAnswer_def recordAnswer_def
      checkAnswer_def resetAnswer_def currentQuestion_def nth_js_def idle_def sampleBank_def
      type_single_def type_multi_def type_judge_def ascii_def split_chars_def)

lemma finished_score:
  "map score (examHistory finished) =
     [\<lparr>total' = 3, correct = 2, incorrect = 1, accuracy = ascii ''66.7%''\<rparr>]"
  by (simp add: finished_def finishExam_def Let_def updateQuestionStats_def currentExamScore_def
      answered3_eq idle_def calculateAccuracy_examples numeral_3_eq_3 [symmetric])

lemma finished_statistics:
  "map (\<lambda>q. consecutiveCorrect (heap finished (statistics q))) (questions finished) = [1, 1, 0]"
  "map (\<lambda>q. totalAttempts (heap finished (statistics q))) (questions finished) = [1, 1, 1]"
  "currentPage finished = report"
  by (simp_all add: finished_def finishExam_def Let_def updateQuestionStats_def
      answered3_eq idle_def sampleBank_def applyAnswer_def zeroStatistics_def ascii_def)

text \<open>Every method keeps the counters equal to the number of answer records.\<close>

lemma countersOK_recordAnswer:
  "recordAnswer s = Inr s' \<Longrightarrow> countersOK s \<Longrightarrow> countersOK s'"
  by (auto simp: recordAnswer_def countersOK_def Let_def
      split: option.splits if_splits user_answer.splits sum.splits)

lemma countersOK_finishExam: "countersOK (finishExam confirm clk s) = countersOK s"
  by (simp add: countersOK_def finishExam_session)

lemma countersOK_resetAnswer [simp]: "countersOK (resetAnswer s) = countersOK s"
  by (simp add: countersOK_def resetAnswer_eq)

lemma countersOK_submitAnswer:
  "submitAnswer confirm clk s = Inr s' \<Longrightarrow> countersOK s \<Longrightarrow> countersOK s'"
  by (auto simp: submitAnswer_def countersOK_finishExam
      split: sum.splits if_splits dest: countersOK_recordAnswer)
     (auto simp: countersOK_def dest: countersOK_recordAnswer)

lemma countersOK_submitAnswer_app:
  "submitAnswer_app s = Inr s' \<Longrightarrow> countersOK s \<Longrightarrow> countersOK s'"
  by (auto simp: submitAnswer_app_def split: sum.splits if_splits dest: countersOK_recordAnswer)
     (auto simp: countersOK_def dest: countersOK_recordAnswer)

lemma countersOK_startExam: "countersOK s \<Longrightarrow> countersOK (startExam s)"
  by (simp add: startExam_def countersOK_def resetAnswer_eq)

lemma countersOK_navigation:
  "countersOK (previousQuestion s) = countersOK s"
  "countersOK (jumpToQuestion i s) = countersOK s"
  by (simp_all add: previousQuestion_def jumpToQuestion_def countersOK_def resetAnswer_eq)



end
